theory Spec2Isabelle
  imports Complex_Main
begin

section \<open>JavaScript strings\<close>

text \<open>
  A string is a list of 8-bit characters (the Latin-1 range of JavaScript's code
  units). \<open>isWhiteSpace\<close> is what \<open>String.prototype.trim\<close> and the regular
  expression class \<open>\s\<close> accept in that range: TAB, LF, VT, FF, CR, SPACE and
  NBSP.
\<close>

definition isWhiteSpace :: "char \<Rightarrow> bool" where
  "isWhiteSpace c = (of_char c \<in> {9, 10, 11, 12, 13, 32, 160 :: nat})"

definition trimEnd :: "string \<Rightarrow> string" where
  "trimEnd s = rev (dropWhile isWhiteSpace (rev s))"

definition trim :: "string \<Rightarrow> string" where
  "trim s = trimEnd (dropWhile isWhiteSpace s)"

text \<open>\<open>toLowerCase\<close> and \<open>toUpperCase\<close> on the Latin-1 range: A-Z and the
  accented capitals 0xC0-0xDE (without the multiplication sign 0xD7).\<close>

definition lowerChar :: "char \<Rightarrow> char" where
  "lowerChar c = (let n = (of_char c :: nat) in
     if (65 \<le> n \<and> n \<le> 90) \<or> (192 \<le> n \<and> n \<le> 222 \<and> n \<noteq> 215)
     then char_of (n + 32) else c)"

definition toLowerCase :: "string \<Rightarrow> string" where
  "toLowerCase s = map lowerChar s"

definition startsWith :: "string \<Rightarrow> string \<Rightarrow> bool" where
  "startsWith s p = (take (length p) s = p)"

text \<open>\<open>s.includes(p)\<close>: \<open>p\<close> occurs in \<open>s\<close> as a contiguous substring.\<close>

fun str_includes :: "string \<Rightarrow> string \<Rightarrow> bool" where
  "str_includes [] p = (p = [])"
| "str_includes (c # cs) p = (startsWith (c # cs) p \<or> str_includes cs p)"

text \<open>A non-negative integer printed in decimal, as a template literal prints it.\<close>

function show_pos :: "int \<Rightarrow> string" where
  "show_pos n = (if n < 10 then [char_of (48 + n)]
                 else show_pos (n div 10) @ [char_of (48 + n mod 10)])"
  by pat_completeness auto
termination
  by (relation "measure nat") auto

declare show_pos.simps [simp del]

definition show_nat :: "nat \<Rightarrow> string" where
  "show_nat n = show_pos (int n)"

definition show_int :: "int \<Rightarrow> string" where
  "show_int i = (if i < 0 then CHR ''-'' # show_pos (- i) else show_pos i)"

text \<open>A natural number printed in decimal with at least \<open>w\<close> digits
  (\<open>padStart(w, '0')\<close>).\<close>

definition pad_nat :: "nat \<Rightarrow> nat \<Rightarrow> string" where
  "pad_nat w n = replicate (w - length (show_nat n)) CHR ''0'' @ show_nat n"

definition isDigit :: "char \<Rightarrow> bool" where
  "isDigit c = (48 \<le> (of_char c :: nat) \<and> (of_char c :: nat) \<le> 57)"

definition isLetter :: "char \<Rightarrow> bool" where
  "isLetter c = (let n = (of_char c :: nat) in (65 \<le> n \<and> n \<le> 90) \<or> (97 \<le> n \<and> n \<le> 122))"

text \<open>\<open>parseInt\<close> on a string of decimal digits (the only strings it is given here:
  what a \<open>\d\<close> group captured).\<close>

definition parseInt :: "string \<Rightarrow> int" where
  "parseInt s = foldl (\<lambda>a c. a * 10 + (int (of_char c) - 48)) 0 s"

text \<open>
  \<open>toUpperCase\<close> on the Latin-1 range: a-z and the accented small letters
  0xE0-0xFE (without the division sign 0xF7); the sharp s becomes \<open>SS\<close>. The micro
  sign and the y with diaeresis, whose capitals lie outside Latin-1, are left as they
  are.
\<close>

definition upperChar :: "char \<Rightarrow> string" where
  "upperChar c = (let n = (of_char c :: nat) in
     if (97 \<le> n \<and> n \<le> 122) \<or> (224 \<le> n \<and> n \<le> 254 \<and> n \<noteq> 247)
     then [char_of (n - 32)]
     else if n = 223 then ''SS'' else [c])"

definition toUpperCase :: "string \<Rightarrow> string" where
  "toUpperCase s = concat (map upperChar s)"

section \<open>Regular expressions\<close>

text \<open>
  The fragment of JavaScript's regular expressions that the parser's patterns use:
  a character class, a literal, sequence, alternative, a greedy optional group, a
  greedy bounded repetition of a character class, and a capture group. Matching is
  backtracking, modelled as the list of all ways to match a prefix of the input, in
  the order in which backtracking tries them; each way is the rest of the input and the
  captures made. The flag \<open>i\<close> is the parameter \<open>ci\<close>: literals then match
  letters of either case.
\<close>

datatype rx =
    Eps
  | Cls "char \<Rightarrow> bool"
  | Lit string
  | Seq rx rx
  | Alt rx rx
  | Opt rx
  | Rep "char \<Rightarrow> bool" nat "nat option"
  | Grp nat rx

type_synonym captures = "(nat \<times> string) list"

definition lit_eq :: "bool \<Rightarrow> string \<Rightarrow> string \<Rightarrow> bool" where
  "lit_eq ci a b = (if ci then toLowerCase a = toLowerCase b else a = b)"

fun rx_match :: "bool \<Rightarrow> rx \<Rightarrow> string \<times> captures \<Rightarrow> (string \<times> captures) list" where
  "rx_match ci Eps st = [st]"
| "rx_match ci (Cls P) (inp, c) =
     (case inp of [] \<Rightarrow> [] | x # xs \<Rightarrow> if P x then [(xs, c)] else [])"
| "rx_match ci (Lit l) (inp, c) =
     (if length l \<le> length inp \<and> lit_eq ci (take (length l) inp) l
      then [(drop (length l) inp, c)] else [])"
| "rx_match ci (Seq a b) st = concat (map (rx_match ci b) (rx_match ci a st))"
| "rx_match ci (Alt a b) st = rx_match ci a st @ rx_match ci b st"
| "rx_match ci (Opt a) st = rx_match ci a st @ [st]"
| "rx_match ci (Rep P lo hi) (inp, c) =
     (let run = length (takeWhile P inp);
          most = (case hi of None \<Rightarrow> run | Some h \<Rightarrow> min h run)
      in map (\<lambda>k. (drop k inp, c)) (rev [lo ..< Suc most]))"
| "rx_match ci (Grp i a) (inp, c) =
     map (\<lambda>(rest, c'). (rest, (i, take (length inp - length rest) inp) # c'))
       (rx_match ci a (inp, c))"

text \<open>\<open>s.match(/^r$/)\<close>: the captures of the first way that consumes all of
  \<open>s\<close>, or \<open>None\<close> for \<open>null\<close>.\<close>

definition match_all :: "bool \<Rightarrow> rx \<Rightarrow> string \<Rightarrow> captures option" where
  "match_all ci r s =
     (case filter (\<lambda>(rest, c). rest = []) (rx_match ci r (s, [])) of
        [] \<Rightarrow> None
      | (rest, c) # _ \<Rightarrow> Some c)"

text \<open>\<open>m[i]\<close>: the text of group \<open>i\<close>, \<open>None\<close> (undefined) when the group took
  no part in the match.\<close>

definition grp :: "captures \<Rightarrow> nat \<Rightarrow> string option" where
  "grp m i = map_of m i"

text \<open>\<open>m[i] ? parseInt(m[i]) : 0\<close>\<close>

definition grpInt :: "captures \<Rightarrow> nat \<Rightarrow> int" where
  "grpInt m i = (case grp m i of None \<Rightarrow> 0 | Some s \<Rightarrow> if s = [] then 0 else parseInt s)"

fun seqs :: "rx list \<Rightarrow> rx" where
  "seqs [] = Eps"
| "seqs [r] = r"
| "seqs (r # rs) = Seq r (seqs rs)"

fun alts :: "string list \<Rightarrow> rx" where
  "alts [] = Lit []"
| "alts [l] = Lit l"
| "alts (l # ls) = Alt (Lit l) (alts ls)"

section \<open>Category Normalizer (src/utils/categoryNormalizer.ts)\<close>

text \<open>
  \<open>normalizeCategory(service, rawCategory)\<close>. The service key is compared as a
  string, as the source does (the callers pass \<open>service.key as any\<close>); the raw
  category is \<open>string | null | undefined\<close>, here \<open>string option\<close>, and
  \<open>rawCategory || ''\<close> reads the absent value as the empty string.
\<close>

definition normalizeCategory :: "string \<Rightarrow> string option \<Rightarrow> string" where
  "normalizeCategory service rawCategory =
    (let input = trim (case rawCategory of None \<Rightarrow> [] | Some r \<Rightarrow> r) in
     if input = [] then []
     else if service = ''smart_teller'' then
       (let v = toLowerCase input in
        if str_includes v ''interface freezing'' \<or> str_includes v ''unresponsive''
           \<or> str_includes v ''slow''
        then ''Interface freezing, slow and or unresponsive''
        else if str_includes v ''core'' \<and> str_includes v ''bank'' \<and> str_includes v ''error''
        then ''Core Banking Error''
        else if startsWith v ''assign application to user''
        then ''Assign application to user on Smart Teller''
        else if startsWith v ''transaction failure''
        then ''Transaction Failure''
        else input)
     else if service = ''cards'' then
       (let v = toLowerCase input in
        if str_includes v ''issuance'' \<and> str_includes v ''connect''
        then ''Card Issuance Connectivity issues''
        else if str_includes v ''error code''
                \<or> (str_includes v ''complain'' \<and> str_includes v ''error'')
        then ''Card Complain with error code''
        else if str_includes v ''card'' \<and> str_includes v ''error''
        then ''Card error''
        else if str_includes v ''indigo''
        then ''Challenges on indigo''
        else input)
     else if service = ''flexcube'' then
       (let v = toLowerCase input in
        if str_includes v ''account maintenance'' then ''Account Maintenance''
        else if str_includes v ''cheque'' \<and> str_includes v ''book'' then ''Cheque Book''
        else if str_includes v ''account'' \<and> str_includes v ''closure'' then ''Account Closure''
        else if str_includes v ''account'' \<and> str_includes v ''class''
                \<and> str_includes v ''transfer''
        then ''Account Class Transfer''
        else input)
     else if service = ''ibps'' then
       (let v = toLowerCase input in
        if str_includes v ''account'' \<and> str_includes v ''opening''
        then ''Account Opening Challenges''
        else if (str_includes v ''ao'' \<and> str_includes v ''update'')
                \<or> (str_includes v ''account'' \<and> str_includes v ''opening''
                    \<and> str_includes v ''update'')
        then ''AO update Challenges''
        else if str_includes v ''account maintenance'' then ''Account Maintenance''
        else if (str_includes v ''ft'' \<and> str_includes v ''validation'')
                \<or> str_includes v ''fund transfer validation''
        then ''FT validation issue''
        else input)
     else if service = ''mfs'' then
       (let v = toLowerCase input in
        if str_includes v ''virtual'' \<and> str_includes v ''card''
        then ''Issue creating virtual cards''
        else if str_includes v ''onboarding'' \<and> str_includes v ''non''
                \<and> (str_includes v ''recipient'' \<or> str_includes v ''recipient'')
        then ''Onboarding - Non recipient OTP''
        else if str_includes v ''onboarding'' then ''Onboarding related''
        else if str_includes v ''account'' \<and> str_includes v ''activation''
        then ''Account Activation''
        else input)
     else input)"

section \<open>Tickets (types/ticket.ts)\<close>

text \<open>
  A JavaScript number that holds an integer or \<open>NaN\<close> (a week number computed from
  an unparseable date).
\<close>

datatype jsnumber = JsNaN | JsInt int

text \<open>
  \<open>TicketData\<close>. Every field is optional here, \<open>None\<close> for a property that is
  not set: the parser builds a \<open>Partial<TicketData>\<close> and casts it, and the
  code tests each field for truthiness before it uses it. The field \<open>id\<close> is
  written \<open>id'\<close>.
\<close>

record TicketData =
  id' :: "string option"
  import_id :: "string option"
  ticket_id :: "string option"
  request_time :: "string option"
  week_number :: "jsnumber option"
  week_label :: "string option"
  initiator :: "string option"
  affiliate :: "string option"
  cluster :: "string option"
  service_record_type :: "string option"
  category :: "string option"
  sub_category :: "string option"
  third_lvl_category :: "string option"
  title :: "string option"
  description :: "string option"
  name :: "string option"
  support_group :: "string option"
  process :: "string option"
  process_manager :: "string option"
  priority :: "string option"
  status :: "string option"
  resolution :: "string option"
  root_cause :: "string option"
  incident_origin :: "string option"
  close_time :: "string option"
  sla_indicator :: "string option"
  created_at :: "string option"

text \<open>The object literal \<open>{}\<close>: no property set.\<close>

definition emptyTicket :: TicketData where
  "emptyTicket = \<lparr> id' = None, import_id = None, ticket_id = None, request_time = None,
     week_number = None, week_label = None, initiator = None, affiliate = None,
     cluster = None, service_record_type = None, category = None, sub_category = None,
     third_lvl_category = None, title = None, description = None, name = None,
     support_group = None, process = None, process_manager = None, priority = None,
     status = None, resolution = None, root_cause = None, incident_origin = None,
     close_time = None, sla_indicator = None, created_at = None \<rparr>"

text \<open>A string property is truthy when it is set and not empty; \<open>x || d\<close> is
  \<open>x\<close> when \<open>x\<close> is truthy and \<open>d\<close> otherwise.\<close>

definition truthy :: "string option \<Rightarrow> bool" where
  "truthy x = (case x of None \<Rightarrow> False | Some s \<Rightarrow> s \<noteq> [])"

definition or_default :: "string option \<Rightarrow> string \<Rightarrow> string" where
  "or_default x d = (case x of None \<Rightarrow> d | Some s \<Rightarrow> if s = [] then d else s)"

section \<open>Breakdown Aggregator (the analytics dashboard's calculate...Breakdown functions)\<close>

record CategoryBreakdown =
  category :: string
  count :: nat
  percentage :: rat

text \<open>
  A \<open>Map<string, number>\<close> keeps its keys in the order of their first insertion;
  it is an association list. \<open>map_bump m k\<close> is
  \<open>m.set(k, (m.get(k) || 0) + 1)\<close>: a present key keeps its place.
\<close>

fun map_bump :: "(string \<times> nat) list \<Rightarrow> string \<Rightarrow> (string \<times> nat) list" where
  "map_bump [] k = [(k, 0 + 1)]"
| "map_bump ((k', c) # m) k = (if k' = k then (k', c + 1) # m else (k', c) # map_bump m k)"

text \<open>\<open>([category, count]) => ({ category, count,
  percentage: total > 0 ? (count / total) * 100 : 0 })\<close>\<close>

definition entry :: "nat \<Rightarrow> string \<times> nat \<Rightarrow> CategoryBreakdown" where
  "entry total' e =
     \<lparr> category = fst e, count = snd e,
       percentage = (if total' > 0 then (of_nat (snd e) / of_nat total') * 100 else 0) \<rparr>"

text \<open>\<open>Array.prototype.sort\<close> is stable, and \<open>(a, b) => b.count - a.count\<close> orders
  by descending count: a stable sort on the negated count.\<close>

definition byCountDesc :: "CategoryBreakdown \<Rightarrow> int" where
  "byCountDesc e = - int (CategoryBreakdown.count e)"

text \<open>\<open>order.indexOf(x)\<close>, \<open>-1\<close> when \<open>x\<close> is not in \<open>order\<close>.\<close>

fun indexOf :: "string list \<Rightarrow> string \<Rightarrow> int" where
  "indexOf [] x = -1"
| "indexOf (y # ys) x = (if y = x then 0 else (let i = indexOf ys x in if i < 0 then -1 else i + 1))"

definition byPriorityOrder :: "CategoryBreakdown \<Rightarrow> int" where
  "byPriorityOrder e =
     indexOf [''P1'', ''P2'', ''P3'', ''P4'', ''Unassigned''] (CategoryBreakdown.category e)"

definition calculateCategoryBreakdown :: "TicketData list \<Rightarrow> CategoryBreakdown list" where
  "calculateCategoryBreakdown data =
    (let total' = length data;
         categoryMap = foldl (\<lambda>m ticket.
            map_bump m (or_default (third_lvl_category ticket) ''Uncategorized'')) [] data
     in sort_key byCountDesc (map (entry total') categoryMap))"

definition calculatePriorityBreakdown :: "TicketData list \<Rightarrow> CategoryBreakdown list" where
  "calculatePriorityBreakdown data =
    (let total' = length data;
         priorityMap = foldl (\<lambda>m ticket.
            map_bump m (or_default (priority ticket) ''Unassigned'')) [] data
     in sort_key byPriorityOrder (map (entry total') priorityMap))"

definition calculateStatusBreakdown :: "TicketData list \<Rightarrow> CategoryBreakdown list" where
  "calculateStatusBreakdown data =
    (let total' = length data;
         statusMap = foldl (\<lambda>m ticket.
            map_bump m (or_default (status ticket) ''Unknown'')) [] data
     in sort_key byCountDesc (map (entry total') statusMap))"

definition calculateClusterBreakdown :: "TicketData list \<Rightarrow> CategoryBreakdown list" where
  "calculateClusterBreakdown data =
    (let total' = length data;
         clusterMap = foldl (\<lambda>m ticket.
            map_bump m (or_default (cluster ticket) ''Unassigned'')) [] data
     in sort_key byCountDesc (map (entry total') clusterMap))"

definition calculateAffiliateBreakdown :: "TicketData list \<Rightarrow> CategoryBreakdown list" where
  "calculateAffiliateBreakdown data =
    (let total' = length data;
         affiliateMap = foldl (\<lambda>m ticket.
            map_bump m (or_default (affiliate ticket) ''Unassigned'')) [] data
     in take 15 (sort_key byCountDesc (map (entry total') affiliateMap)))"

definition calculateRecordTypeBreakdown :: "TicketData list \<Rightarrow> CategoryBreakdown list" where
  "calculateRecordTypeBreakdown data =
    (let total' = length data;
         recordTypeMap = foldl (\<lambda>m ticket.
            map_bump m (or_default (service_record_type ticket) ''Unknown'')) [] data
     in take 10 (sort_key byCountDesc (map (entry total') recordTypeMap)))"

definition calculateSupportGroupBreakdown :: "TicketData list \<Rightarrow> CategoryBreakdown list" where
  "calculateSupportGroupBreakdown data =
    (let total' = length data;
         supportGroupMap = foldl (\<lambda>m ticket.
            map_bump m (or_default (support_group ticket) ''Unassigned'')) [] data
     in take 10 (sort_key byCountDesc (map (entry total') supportGroupMap)))"

definition calculateInitiatorBreakdown :: "TicketData list \<Rightarrow> CategoryBreakdown list" where
  "calculateInitiatorBreakdown data =
    (let total' = length data;
         initiatorMap = foldl (\<lambda>m ticket.
            map_bump m (or_default (initiator ticket) ''Unknown'')) [] data
     in take 10 (sort_key byCountDesc (map (entry total') initiatorMap)))"

section \<open>Dates (the host's \<open>Date\<close> object)\<close>

text \<open>
  What the code takes from its host: the local time zone, here a fixed offset from UTC
  in milliseconds (local time = UTC + offset; a zone without daylight saving);
  \<open>Date.parse\<close>, whose reading of strings outside the ECMAScript date-time format
  is implementation-defined, with \<open>None\<close> for \<open>NaN\<close>; and the clock
  \<open>Date.now()\<close>. A time value is an integer number of milliseconds since
  1970-01-01T00:00:00Z.
\<close>

record Host =
  tzOffsetMs :: int
  dateParse :: "string \<Rightarrow> int option"
  now :: int

definition msPerDay :: int where
  "msPerDay = 86400000"

text \<open>Days since 1970-01-01 of a day of the proleptic Gregorian calendar (month
  1..12), and back.\<close>

definition days_from_civil :: "int \<Rightarrow> int \<Rightarrow> int \<Rightarrow> int" where
  "days_from_civil y m d =
    (let y' = (if m \<le> 2 then y - 1 else y);
         era = y' div 400;
         yoe = y' - era * 400;
         mp = (m + 9) mod 12;
         doy = (153 * mp + 2) div 5 + d - 1;
         doe = yoe * 365 + yoe div 4 - yoe div 100 + doy
     in era * 146097 + doe - 719468)"

definition civil_from_days :: "int \<Rightarrow> int \<times> int \<times> int" where
  "civil_from_days z =
    (let z' = z + 719468;
         era = z' div 146097;
         doe = z' - era * 146097;
         yoe = (doe - doe div 1460 + doe div 36524 - doe div 146096) div 365;
         doy = doe - (365 * yoe + yoe div 4 - yoe div 100);
         mp = (5 * doy + 2) div 153;
         d = doy - (153 * mp + 2) div 5 + 1;
         m = (if mp < 10 then mp + 3 else mp - 9);
         y = yoe + era * 400
     in (if m \<le> 2 then y + 1 else y, m, d))"

text \<open>ECMAScript's \<open>MakeDay\<close> (the month is an index from 0 and may overflow into
  other years), \<open>MakeTime\<close> and \<open>TimeClip\<close>.\<close>

definition MakeDay :: "int \<Rightarrow> int \<Rightarrow> int \<Rightarrow> int" where
  "MakeDay year month dt =
    (let ym = year + month div 12; mn = month mod 12
     in days_from_civil ym (mn + 1) 1 + dt - 1)"

definition MakeTime :: "int \<Rightarrow> int \<Rightarrow> int \<Rightarrow> int \<Rightarrow> int" where
  "MakeTime hours minutes seconds ms = hours * 3600000 + minutes * 60000 + seconds * 1000 + ms"

definition TimeClip :: "int \<Rightarrow> int option" where
  "TimeClip t = (if \<bar>t\<bar> > 8640000000000000 then None else Some t)"

text \<open>\<open>new Date(year, month, day, hours, minutes, seconds)\<close>: the fields are read in
  local time; a year from 0 to 99 means 1900 + year.\<close>

definition Date_local :: "Host \<Rightarrow> int \<Rightarrow> int \<Rightarrow> int \<Rightarrow> int \<Rightarrow> int \<Rightarrow> int \<Rightarrow> int option" where
  "Date_local host year month day hours minutes seconds =
    (let yr = (if 0 \<le> year \<and> year \<le> 99 then 1900 + year else year);
         finalDate = MakeDay yr month day * msPerDay + MakeTime hours minutes seconds 0
     in TimeClip (finalDate - tzOffsetMs host))"

text \<open>\<open>toISOString\<close> of a valid time value: \<open>YYYY-MM-DDTHH:mm:ss.sssZ\<close>, with a
  signed six-digit year outside 0..9999.\<close>

definition toISOString :: "int \<Rightarrow> string" where
  "toISOString t =
    (let day = t div msPerDay;
         ms = t mod msPerDay;
         (y, m, d) = civil_from_days day;
         year = (if 0 \<le> y \<and> y \<le> 9999 then pad_nat 4 (nat y)
                 else (if y < 0 then ''-'' else ''+'') @ pad_nat 6 (nat \<bar>y\<bar>))
     in year @ ''-'' @ pad_nat 2 (nat m) @ ''-'' @ pad_nat 2 (nat d) @ ''T''
        @ pad_nat 2 (nat (ms div 3600000)) @ '':'' @ pad_nat 2 (nat ((ms div 60000) mod 60))
        @ '':'' @ pad_nat 2 (nat ((ms div 1000) mod 60)) @ ''.'' @ pad_nat 3 (nat (ms mod 1000))
        @ ''Z'')"

text \<open>\<open>date.setHours(0, 0, 0, 0)\<close>: the start of the local day of a time value.\<close>

definition startOfLocalDay :: "Host \<Rightarrow> int \<Rightarrow> int" where
  "startOfLocalDay host t = ((t + tzOffsetMs host) div msPerDay) * msPerDay - tzOffsetMs host"

text \<open>
  A \<open>Date.parse\<close> that reads the two forms of the ECMAScript date-time format that
  occur here, \<open>YYYY-MM-DD\<close> and \<open>YYYY-MM-DDTHH:mm:ss.sssZ\<close> (both are UTC, as
  ECMAScript prescribes), and gives \<open>NaN\<close> for every other string, as an
  implementation without fallback formats does.
\<close>

definition re_iso :: rx where
  "re_iso = seqs [Grp 1 (Rep isDigit 4 (Some 4)), Lit ''-'', Grp 2 (Rep isDigit 2 (Some 2)),
     Lit ''-'', Grp 3 (Rep isDigit 2 (Some 2)),
     Opt (seqs [Lit ''T'', Grp 4 (Rep isDigit 2 (Some 2)), Lit '':'',
                Grp 5 (Rep isDigit 2 (Some 2)), Lit '':'', Grp 6 (Rep isDigit 2 (Some 2)),
                Lit ''.'', Grp 7 (Rep isDigit 3 (Some 3)), Lit ''Z''])]"

definition daysInMonth :: "int \<Rightarrow> int \<Rightarrow> int" where
  "daysInMonth y m = MakeDay y m 1 - MakeDay y (m - 1) 1"

definition isoDateParse :: "string \<Rightarrow> int option" where
  "isoDateParse s =
    (case match_all False re_iso s of
       None \<Rightarrow> None
     | Some m \<Rightarrow>
        (let y = grpInt m 1; mo = grpInt m 2; d = grpInt m 3;
             h = grpInt m 4; mi = grpInt m 5; sec = grpInt m 6; ms = grpInt m 7
         in if 1 \<le> mo \<and> mo \<le> 12 \<and> 1 \<le> d \<and> d \<le> daysInMonth y mo
               \<and> h \<le> 23 \<and> mi \<le> 59 \<and> sec \<le> 59
            then TimeClip (MakeDay y (mo - 1) d * msPerDay + MakeTime h mi sec ms)
            else None))"

text \<open>Two hosts with that \<open>Date.parse\<close>: one on UTC, one an hour ahead of UTC
  (Africa/Lagos).\<close>

definition utcHost :: Host where
  "utcHost = \<lparr> tzOffsetMs = 0, dateParse = isoDateParse, now = 1762041600000 \<rparr>"

definition lagosHost :: Host where
  "lagosHost = \<lparr> tzOffsetMs = 3600000, dateParse = isoDateParse, now = 1762041600000 \<rparr>"

section \<open>Trend Pattern Analyzer and Insight Generator (src/utils/insightsGenerator.ts)\<close>

text \<open>
  A \<open>TrendData\<close> point is a period label with the number of tickets counted in it.
  Counts are natural numbers; every quotient the source computes in floating point is
  computed here exactly, over the rationals (the literals \<open>1.3\<close>, \<open>0.7\<close>,
  \<open>0.3\<close>, \<open>0.15\<close> are \<open>13/10\<close>, \<open>7/10\<close>, \<open>3/10\<close>, \<open>3/20\<close>).
\<close>

record TrendData =
  period :: string
  count :: nat

datatype Momentum = accelerating | decelerating | steady

record TrendPattern =
  isIncreasing :: bool
  isDecreasing :: bool
  isVolatile :: bool
  isStable :: bool
  momentum :: Momentum

text \<open>\<open>xs.reduce((a, b) => a + b, 0) / xs.length\<close>\<close>

definition average_of :: "int list \<Rightarrow> rat" where
  "average_of xs = of_int (sum_list xs) / of_nat (length xs)"

text \<open>\<open>data.slice(1).map((item, idx) => item.count - data[idx].count)\<close>\<close>

definition changes_of :: "TrendData list \<Rightarrow> int list" where
  "changes_of data = map (\<lambda>(prev, item). int (count item) - int (count prev)) (zip data (tl data))"

text \<open>\<open>changes.slice(-3)\<close> and \<open>changes.slice(0, -3)\<close>\<close>

definition slice_last3 :: "'a list \<Rightarrow> 'a list" where
  "slice_last3 xs = drop (length xs - 3) xs"

definition slice_but_last3 :: "'a list \<Rightarrow> 'a list" where
  "slice_but_last3 xs = take (length xs - 3) xs"

definition momentum_of :: "int list \<Rightarrow> Momentum" where
  "momentum_of changes =
    (if length changes \<ge> 3 then
       (let recentChanges = map abs (slice_last3 changes);
            earlierChanges = map abs (slice_but_last3 changes);
            recentAvg = average_of recentChanges;
            earlierAvg = (if length earlierChanges > 0 then average_of earlierChanges
                          else recentAvg)
        in if recentAvg > earlierAvg * (13 / 10) then accelerating
           else if recentAvg < earlierAvg * (7 / 10) then decelerating
           else steady)
     else steady)"

text \<open>
  \<open>volatilityRatio = Math.sqrt(variance) / avgVolume\<close>. The square root is not
  taken: for a positive \<open>avgVolume\<close>, \<open>sqrt(variance) / avgVolume > r\<close> is
  \<open>variance > (r * avgVolume)\<^sup>2\<close>. When every count is zero the ratio is
  \<open>0 / 0 = NaN\<close> and both comparisons are false.
\<close>

definition analyzeTrendPattern :: "TrendData list \<Rightarrow> TrendPattern" where
  "analyzeTrendPattern data =
    (if length data < 2 then
       \<lparr> isIncreasing = False, isDecreasing = False, isVolatile = False, isStable = True,
         momentum = steady \<rparr>
     else
       (let changes = changes_of data;
            positiveChanges = length (filter (\<lambda>c. c > 0) changes);
            negativeChanges = length (filter (\<lambda>c. c < 0) changes);
            avgChange = average_of changes;
            variance = sum_list (map (\<lambda>c. (of_int c - avgChange)\<^sup>2) changes)
                         / of_nat (length changes);
            avgVolume = average_of (map (\<lambda>d. int (count d)) data)
        in \<lparr> isIncreasing = (positiveChanges > negativeChanges \<and> avgChange > 0),
             isDecreasing = (negativeChanges > positiveChanges \<and> avgChange < 0),
             isVolatile = (avgVolume \<noteq> 0 \<and> variance > ((3 / 10) * avgVolume)\<^sup>2),
             isStable = (avgVolume \<noteq> 0 \<and> variance < ((3 / 20) * avgVolume)\<^sup>2),
             momentum = momentum_of changes \<rparr>))"

text \<open>
  An insight. The message is kept as the parts of the source's template literal:
  literal text, a number printed as it is, a number printed by \<open>toFixed(d)\<close>, and
  a period label formatted by \<open>formatMonth\<close>. Titles are written without the
  pictograph (and the space after it) that opens them in the source.
\<close>

datatype Severity = critical | warning | positive | neutral

datatype Icon = icon_alert | icon_warning | icon_success | icon_info

datatype MessagePart = Txt string | Num int | Fixed nat rat | Month string

record TrendInsight =
  severity :: Severity
  title :: string
  message :: "MessagePart list"
  recommendation :: "string option"
  icon :: Icon

text \<open>\<open>severity === 'critical' ? 'alert' : severity === 'warning' ? 'warning'
  : severity === 'positive' ? 'success' : 'info'\<close>\<close>

definition icon_for :: "Severity \<Rightarrow> Icon" where
  "icon_for s = (if s = critical then icon_alert else if s = warning then icon_warning
                 else if s = positive then icon_success else icon_info)"

text \<open>\<open>previous.count > 0 ? ((change / previous.count) * 100) : 0\<close>\<close>

definition percentChange_of :: "int \<Rightarrow> nat \<Rightarrow> rat" where
  "percentChange_of change previous_count =
     (if previous_count > 0 then (of_int change / of_nat previous_count) * 100 else 0)"

text \<open>The week-over-week block of \<open>generateWeeklyInsights\<close> (the first push).\<close>

definition weekOverWeek :: "TrendPattern \<Rightarrow> TrendData \<Rightarrow> TrendData \<Rightarrow> TrendInsight" where
  "weekOverWeek pattern previous latest =
    (let change = int (count latest) - int (count previous);
         percentChange = percentChange_of change (count previous)
     in if \<bar>change\<bar> > 0 then
       (let magnitude = \<bar>percentChange\<bar> in
        if change > 0 then
          (if magnitude > 50 then
             \<lparr> severity = critical, title = ''Significant Spike Detected'',
               message = [Txt ''Ticket volume surged by '', Num \<bar>change\<bar>, Txt '' tickets ('',
                          Fixed 0 magnitude, Txt ''% increase) in '', Txt (period latest),
                          Txt ''. This is a major deviation from normal patterns.''],
               recommendation = Some ''Immediate investigation recommended. Check for system outages, new deployments, or emerging issues affecting multiple users.'',
               icon = icon_for critical \<rparr>
           else if magnitude > 20 then
             \<lparr> severity = warning, title = ''Notable Increase in Volume'',
               message = [Txt (period latest), Txt '' saw '', Num \<bar>change\<bar>,
                          Txt '' more tickets than '', Txt (period previous), Txt '' ('',
                          Fixed 1 magnitude, Txt ''% increase). This uptick warrants attention.''],
               recommendation = Some ''Review recent changes, monitor for patterns, and consider allocating additional support resources if trend continues.'',
               icon = icon_for warning \<rparr>
           else
             \<lparr> severity = warning, title = ''Slight Uptick Observed'',
               message = [Txt ''Ticket volume increased modestly by '', Num \<bar>change\<bar>,
                          Txt '' tickets ('', Fixed 1 magnitude, Txt ''%) in '',
                          Txt (period latest), Txt ''.''],
               recommendation = Some (if momentum pattern = accelerating
                  then ''Monitor closely - this could be the start of a larger trend.''
                  else ''Normal fluctuation, but keep an eye on it.''),
               icon = icon_for warning \<rparr>)
        else
          (if magnitude > 50 then
             \<lparr> severity = positive, title = ''Dramatic Improvement'',
               message = [Txt ''Excellent news! Ticket volume dropped by '', Num \<bar>change\<bar>,
                          Txt '' tickets ('', Fixed 0 magnitude, Txt ''% decrease) in '',
                          Txt (period latest), Txt ''. This is a substantial improvement.''],
               recommendation = Some ''Document what went well. Consider if recent initiatives (training, fixes, process improvements) contributed to this success.'',
               icon = icon_for positive \<rparr>
           else if magnitude > 20 then
             \<lparr> severity = positive, title = ''Significant Reduction'',
               message = [Txt (period latest), Txt '' shows strong improvement with '',
                          Num \<bar>change\<bar>, Txt '' fewer tickets than '', Txt (period previous),
                          Txt '' ('', Fixed 1 magnitude, Txt ''% decrease).''],
               recommendation = Some ''Positive trend. Identify contributing factors to sustain this improvement.'',
               icon = icon_for positive \<rparr>
           else
             \<lparr> severity = positive, title = ''Modest Improvement'',
               message = [Txt ''Ticket volume decreased by '', Num \<bar>change\<bar>,
                          Txt '' tickets ('', Fixed 1 magnitude, Txt ''%) in '',
                          Txt (period latest), Txt ''.''],
               recommendation = Some ''Heading in the right direction. Continue current practices.'',
               icon = icon_for positive \<rparr>))
     else
       \<lparr> severity = neutral, title = ''Stable Volume'',
         message = [Txt (period latest), Txt '' maintained the same ticket volume as '',
                    Txt (period previous), Txt '' ('', Num (int (count latest)),
                    Txt '' tickets). Consistency can indicate predictable demand.''],
         recommendation = None, icon = icon_info \<rparr>)"

text \<open>
  The pattern-based pushes of \<open>generateWeeklyInsights\<close>, each the list of what
  its \<open>if\<close> pushes (one insight or none).
\<close>

definition weeklyVolatility :: "TrendPattern \<Rightarrow> TrendData list \<Rightarrow> TrendInsight list" where
  "weeklyVolatility pattern weeklyTrend =
    (if isVolatile pattern \<and> length weeklyTrend \<ge> 4 then
       [\<lparr> severity = warning, title = ''High Volatility Detected'',
          message = [Txt ''Ticket volume is fluctuating significantly week-to-week. This unpredictability makes resource planning challenging.''],
          recommendation = Some ''Investigate root causes of volatility. Look for recurring patterns (e.g., weekly cycles, deployment schedules) or external factors.'',
          icon = icon_warning \<rparr>]
     else [])"

definition weeklyAccelerating :: "TrendPattern \<Rightarrow> TrendInsight list" where
  "weeklyAccelerating pattern =
    (if momentum pattern = accelerating \<and> isIncreasing pattern then
       [\<lparr> severity = critical, title = ''Accelerating Growth'',
          message = [Txt ''The rate of increase is accelerating - each week shows larger jumps than the previous. This suggests a growing problem.''],
          recommendation = Some ''Urgent action needed. This pattern often indicates a systemic issue that's compounding. Escalate to leadership.'',
          icon = icon_alert \<rparr>]
     else [])"

text \<open>
  Comparison to the average. \<open>deviationFromAvg\<close> divides by the average; when
  the average is zero every count is zero, the quotient is \<open>NaN\<close> and the
  comparison with 30 is false.
\<close>

definition weeklyDeviation :: "TrendData list \<Rightarrow> TrendData \<Rightarrow> rat \<Rightarrow> TrendInsight list" where
  "weeklyDeviation weeklyTrend latest average =
    (let deviationFromAvg = ((of_nat (count latest) - average) / average) * 100
     in if average \<noteq> 0 \<and> \<bar>deviationFromAvg\<bar> > 30 then
       [\<lparr> severity = (if deviationFromAvg > 0 then warning else positive),
          title = (if deviationFromAvg > 0 then ''Well Above Average''
                   else ''Well Below Average''),
          message = [Txt ''Current week is '', Fixed 0 \<bar>deviationFromAvg\<bar>, Txt ''% '',
                     Txt (if deviationFromAvg > 0 then ''above'' else ''below''),
                     Txt '' the '', Num (int (length weeklyTrend)),
                     Txt ''-week average of '', Fixed 1 average, Txt '' tickets.''],
          recommendation = Some (if deviationFromAvg > 0
            then ''This is significantly higher than typical. Ensure adequate staffing and prioritize critical issues.''
            else ''Enjoying a quieter period. Good time for proactive work, training, or addressing technical debt.''),
          icon = (if deviationFromAvg > 0 then icon_warning else icon_success) \<rparr>]
     else [])"

text \<open>The overall first-to-last trend, for three weeks or more.\<close>

definition weeklyOverall :: "TrendData list \<Rightarrow> TrendData \<Rightarrow> TrendData \<Rightarrow> TrendInsight list" where
  "weeklyOverall weeklyTrend first latest =
    (if length weeklyTrend \<ge> 3 then
       (let overallChange = int (count latest) - int (count first);
            overallPercent = percentChange_of overallChange (count first)
        in if \<bar>overallPercent\<bar> > 25 then
             (let direction = (if overallChange > 0 then ''increased'' else ''decreased'');
                  sentiment = (if overallChange > 0 then ''concerning'' else ''encouraging'')
              in [\<lparr> severity = (if overallChange > 0 then warning else positive),
                    title = show_nat (length weeklyTrend) @ ''-Week Trend: ''
                            @ (if overallChange > 0 then ''Increased'' else ''Decreased''),
                    message = [Txt ''Over the past '', Num (int (length weeklyTrend)),
                               Txt '' weeks, ticket volume has '', Txt direction,
                               Txt '' by '', Fixed 0 \<bar>overallPercent\<bar>, Txt ''% (from '',
                               Num (int (count first)), Txt '' to '',
                               Num (int (count latest)), Txt ''). This '', Txt sentiment,
                               Txt '' trend deserves attention.''],
                    recommendation = Some (if overallChange > 0
                      then ''Long-term upward trend suggests systemic issues. Consider root cause analysis, process improvements, or capacity planning.''
                      else ''Sustained improvement is excellent. Document success factors and ensure they're maintained.''),
                    icon = (if overallChange > 0 then icon_warning else icon_success) \<rparr>])
           else [])
     else [])"

definition insufficientData :: "string \<Rightarrow> TrendInsight" where
  "insufficientData unit =
     \<lparr> severity = neutral, title = ''Insufficient Data'',
       message = [Txt (''Need at least 2 '' @ unit @ '' of data to generate meaningful insights.'')],
       recommendation = None, icon = icon_info \<rparr>"

text \<open>
  \<open>generateWeeklyInsights\<close>: the pushes in the source's order, then
  \<open>insights.slice(0, 3)\<close>.
\<close>

definition generateWeeklyInsights :: "TrendData list \<Rightarrow> TrendInsight list" where
  "generateWeeklyInsights weeklyTrend =
    (if length weeklyTrend < 2 then [insufficientData ''weeks'']
     else
       (let latest = weeklyTrend ! (length weeklyTrend - 1);
            previous = weeklyTrend ! (length weeklyTrend - 2);
            first = weeklyTrend ! 0;
            average = average_of (map (\<lambda>w. int (count w)) weeklyTrend);
            pattern = analyzeTrendPattern weeklyTrend;
            insights = [weekOverWeek pattern previous latest]
                       @ weeklyVolatility pattern weeklyTrend
                       @ weeklyAccelerating pattern
                       @ weeklyDeviation weeklyTrend latest average
                       @ weeklyOverall weeklyTrend first latest
        in take 3 insights))"

text \<open>The month-over-month block of \<open>generateMonthlyInsights\<close>: it pushes only
  when the count changed.\<close>

definition monthOverMonth :: "TrendData \<Rightarrow> TrendData \<Rightarrow> TrendInsight list" where
  "monthOverMonth previous latest =
    (let change = int (count latest) - int (count previous);
         percentChange = percentChange_of change (count previous)
     in if \<bar>change\<bar> > 0 then
       (let magnitude = \<bar>percentChange\<bar> in
        if change > 0 then
          (if magnitude > 40 then
             [\<lparr> severity = critical, title = ''Major Monthly Increase'',
                message = [Month (period latest), Txt '' experienced a significant surge with '',
                           Num \<bar>change\<bar>, Txt '' more tickets than '', Month (period previous),
                           Txt '' ('', Fixed 0 magnitude, Txt ''% increase).''],
                recommendation = Some ''This level of increase over a full month indicates a serious trend. Conduct comprehensive analysis and consider strategic interventions.'',
                icon = icon_for critical \<rparr>]
           else if magnitude > 15 then
             [\<lparr> severity = warning, title = ''Monthly Volume Rising'',
                message = [Month (period latest), Txt '' saw '', Num \<bar>change\<bar>,
                           Txt '' additional tickets compared to the previous month ('',
                           Fixed 1 magnitude, Txt ''% increase).''],
                recommendation = Some ''Monitor for seasonal patterns or emerging issues. Consider capacity planning if trend persists.'',
                icon = icon_for warning \<rparr>]
           else
             [\<lparr> severity = neutral, title = ''Slight Monthly Increase'',
                message = [Month (period latest), Txt '' had '', Num \<bar>change\<bar>,
                           Txt '' more tickets ('', Fixed 1 magnitude,
                           Txt ''% increase). This is within normal variation.''],
                recommendation = Some [], icon = icon_for neutral \<rparr>])
        else
          (if magnitude > 40 then
             [\<lparr> severity = positive, title = ''Outstanding Monthly Performance'',
                message = [Month (period latest), Txt '' achieved remarkable results with '',
                           Num \<bar>change\<bar>, Txt '' fewer tickets than '', Month (period previous),
                           Txt '' ('', Fixed 0 magnitude, Txt ''% reduction).''],
                recommendation = Some ''Exceptional performance! Analyze what drove this success and institutionalize those practices.'',
                icon = icon_for positive \<rparr>]
           else if magnitude > 15 then
             [\<lparr> severity = positive, title = ''Strong Monthly Improvement'',
                message = [Month (period latest), Txt '' shows solid improvement with '',
                           Num \<bar>change\<bar>, Txt '' fewer tickets ('', Fixed 1 magnitude,
                           Txt ''% decrease).''],
                recommendation = Some ''Positive momentum. Identify and reinforce contributing factors.'',
                icon = icon_for positive \<rparr>]
           else
             [\<lparr> severity = positive, title = ''Modest Monthly Improvement'',
                message = [Month (period latest), Txt '' had '', Num \<bar>change\<bar>,
                           Txt '' fewer tickets ('', Fixed 1 magnitude, Txt ''% decrease).''],
                recommendation = Some [], icon = icon_for positive \<rparr>]))
     else [])"

text \<open>\<open>monthlyTrend.reduce((max, m) => m.count > max.count ? m : max, monthlyTrend[0])\<close>
  and its mirror for the minimum.\<close>

definition peak_of :: "TrendData \<Rightarrow> TrendData list \<Rightarrow> TrendData" where
  "peak_of m0 ms = foldl (\<lambda>mx m. if count m > count mx then m else mx) m0 ms"

definition low_of :: "TrendData \<Rightarrow> TrendData list \<Rightarrow> TrendData" where
  "low_of m0 ms = foldl (\<lambda>mn m. if count m < count mn then m else mn) m0 ms"

text \<open>Seasonal variation, for six months or more. When the average is zero the
  range is zero too and \<open>rangePercent\<close> is \<open>NaN\<close>.\<close>

definition monthlySeasonal :: "TrendData list \<Rightarrow> rat \<Rightarrow> TrendInsight list" where
  "monthlySeasonal monthlyTrend average =
    (if length monthlyTrend \<ge> 6 then
       (let peakMonth = peak_of (monthlyTrend ! 0) monthlyTrend;
            lowMonth = low_of (monthlyTrend ! 0) monthlyTrend;
            range = int (count peakMonth) - int (count lowMonth);
            rangePercent = (of_int range / average) * 100
        in if average \<noteq> 0 \<and> rangePercent > 50 then
             [\<lparr> severity = warning, title = ''High Seasonal Variation'',
                message = [Txt ''Ticket volume varies significantly across months. Peak was '',
                           Num (int (count peakMonth)), Txt '' in '',
                           Month (period peakMonth), Txt '', low was '',
                           Num (int (count lowMonth)), Txt '' in '',
                           Month (period lowMonth), Txt '' ('',
                           Fixed 0 rangePercent, Txt ''% variation).''],
                recommendation = Some ''Consider flexible staffing models or identify seasonal drivers to better manage peak periods.'',
                icon = icon_warning \<rparr>]
           else [])
     else [])"

definition monthlyDirection :: "TrendPattern \<Rightarrow> TrendData list \<Rightarrow> TrendInsight list" where
  "monthlyDirection pattern monthlyTrend =
    (if isIncreasing pattern \<and> length monthlyTrend \<ge> 3 then
       [\<lparr> severity = warning, title = ''Sustained Upward Trend'',
          message = [Txt ''Ticket volume has been consistently increasing over multiple months. This pattern suggests growing demand or unresolved systemic issues.''],
          recommendation = Some ''Strategic review needed. Consider root cause analysis, process optimization, or capacity expansion.'',
          icon = icon_warning \<rparr>]
     else if isDecreasing pattern \<and> length monthlyTrend \<ge> 3 then
       [\<lparr> severity = positive, title = ''Sustained Improvement'',
          message = [Txt ''Ticket volume has been consistently decreasing over multiple months. Your efforts are paying off!''],
          recommendation = Some ''Document and share success stories. Ensure improvements are sustainable.'',
          icon = icon_success \<rparr>]
     else [])"

definition generateMonthlyInsights :: "TrendData list \<Rightarrow> TrendInsight list" where
  "generateMonthlyInsights monthlyTrend =
    (if length monthlyTrend < 2 then [insufficientData ''months'']
     else
       (let latest = monthlyTrend ! (length monthlyTrend - 1);
            previous = monthlyTrend ! (length monthlyTrend - 2);
            average = average_of (map (\<lambda>m. int (count m)) monthlyTrend);
            pattern = analyzeTrendPattern monthlyTrend;
            insights = monthOverMonth previous latest
                       @ monthlySeasonal monthlyTrend average
                       @ monthlyDirection pattern monthlyTrend
        in take 3 insights))"

section \<open>Date Normalizer (\<open>parseDate\<close> in src/utils/excelParser.ts)\<close>

text \<open>
  \<open>parseFloat\<close>: the longest prefix that is a decimal literal, after leading white
  space; \<open>NaN\<close> when there is none. The value is the exact rational the literal
  denotes (no rounding to a double).
\<close>

datatype parsed_float = PF_NaN | PF_Infinity bool | PF_Finite rat

definition parseFloat :: "string \<Rightarrow> parsed_float" where
  "parseFloat str =
    (let s = dropWhile isWhiteSpace str;
         negative = (s \<noteq> [] \<and> hd s = CHR ''-'');
         r = (if s \<noteq> [] \<and> (hd s = CHR ''-'' \<or> hd s = CHR ''+'') then tl s else s);
         sign = (if negative then -1 else 1)
     in if startsWith r ''Infinity'' then PF_Infinity negative
        else
          (let ip = takeWhile isDigit r;
               r1 = dropWhile isDigit r;
               fp = (if r1 \<noteq> [] \<and> hd r1 = CHR ''.'' then takeWhile isDigit (tl r1) else []);
               r2 = (if r1 \<noteq> [] \<and> hd r1 = CHR ''.'' then dropWhile isDigit (tl r1) else r1)
           in if ip = [] \<and> fp = [] then PF_NaN
              else
                (let mantissa = of_int (parseInt ip) + of_int (parseInt fp) / 10 ^ length fp;
                     e1 = (if r2 \<noteq> [] \<and> (hd r2 = CHR ''e'' \<or> hd r2 = CHR ''E'') then tl r2 else []);
                     eneg = (e1 \<noteq> [] \<and> hd e1 = CHR ''-'');
                     e2 = (if e1 \<noteq> [] \<and> (hd e1 = CHR ''-'' \<or> hd e1 = CHR ''+'') then tl e1 else e1);
                     ed = takeWhile isDigit e2;
                     ex = nat (parseInt ed)
                 in PF_Finite (sign * (if ed = [] then mantissa
                                       else if eneg then mantissa / 10 ^ ex
                                       else mantissa * 10 ^ ex)))))"

text \<open>Truncation of a number to an integer, towards zero (what \<open>new Date(number)\<close>
  does to its argument).\<close>

definition js_trunc :: "rat \<Rightarrow> int" where
  "js_trunc x = (if x \<ge> 0 then \<lfloor>x\<rfloor> else \<lceil>x\<rceil>)"

text \<open>\<open>new Date(number)\<close>\<close>

definition Date_of_number :: "rat \<Rightarrow> int option" where
  "Date_of_number x = TimeClip (js_trunc x)"

definition monthMap :: "(string \<times> int) list" where
  "monthMap = [(''jan'', 0), (''feb'', 1), (''mar'', 2), (''apr'', 3), (''may'', 4), (''jun'', 5),
               (''jul'', 6), (''aug'', 7), (''sep'', 8), (''oct'', 9), (''nov'', 10), (''dec'', 11)]"

definition isDateSep :: "char \<Rightarrow> bool" where
  "isDateSep c = (c = CHR ''/'' \<or> c = CHR ''-'' \<or> c = CHR ''.'')"

definition isSpaceOrDash :: "char \<Rightarrow> bool" where
  "isSpaceOrDash c = (isWhiteSpace c \<or> c = CHR ''-'')"

text \<open>\<open>(?:\s+(\d{1,2}):(\d{2})(?::(\d{2}))?)?\<close>, the optional time of day (groups 4
  to 6) that ends the last three patterns.\<close>

definition re_time :: rx where
  "re_time = Opt (seqs [Rep isWhiteSpace 1 None, Grp 4 (Rep isDigit 1 (Some 2)), Lit '':'',
                        Grp 5 (Rep isDigit 2 (Some 2)),
                        Opt (seqs [Lit '':'', Grp 6 (Rep isDigit 2 (Some 2))])])"

definition re_monthName :: rx where
  "re_monthName = alts [''Jan'', ''Feb'', ''Mar'', ''Apr'', ''May'', ''Jun'',
                        ''Jul'', ''Aug'', ''Sep'', ''Oct'', ''Nov'', ''Dec'']"

text \<open>\<open>/^(\d{1,2})[\/\-\.](\d{1,2})[\/\-\.](\d{4})(?:\s+(\d{1,2}):(\d{2})(?::(\d{2}))?(?:\s*(AM|PM))?)?$/i\<close>\<close>

definition re_ddmmyyyy :: rx where
  "re_ddmmyyyy = seqs [Grp 1 (Rep isDigit 1 (Some 2)), Cls isDateSep,
     Grp 2 (Rep isDigit 1 (Some 2)), Cls isDateSep, Grp 3 (Rep isDigit 4 (Some 4)),
     Opt (seqs [Rep isWhiteSpace 1 None, Grp 4 (Rep isDigit 1 (Some 2)), Lit '':'',
                Grp 5 (Rep isDigit 2 (Some 2)),
                Opt (seqs [Lit '':'', Grp 6 (Rep isDigit 2 (Some 2))]),
                Opt (seqs [Rep isWhiteSpace 0 None, Grp 7 (alts [''AM'', ''PM''])])])]"

text \<open>\<open>/^(\d{4})[\/\-\.](\d{1,2})[\/\-\.](\d{1,2})(?:\s+(\d{1,2}):(\d{2})(?::(\d{2}))?)?$/\<close>\<close>

definition re_yyyymmdd :: rx where
  "re_yyyymmdd = seqs [Grp 1 (Rep isDigit 4 (Some 4)), Cls isDateSep,
     Grp 2 (Rep isDigit 1 (Some 2)), Cls isDateSep, Grp 3 (Rep isDigit 1 (Some 2)), re_time]"

text \<open>\<open>/^(\d{1,2})[\s\-](Jan|...|Dec)[a-z]*[\s\-](\d{4})(?:\s+(\d{1,2}):(\d{2})(?::(\d{2}))?)?$/i\<close>\<close>

definition re_ddmmmyyyy :: rx where
  "re_ddmmmyyyy = seqs [Grp 1 (Rep isDigit 1 (Some 2)), Cls isSpaceOrDash, Grp 2 re_monthName,
     Rep isLetter 0 None, Cls isSpaceOrDash, Grp 3 (Rep isDigit 4 (Some 4)), re_time]"

text \<open>\<open>/^(Jan|...|Dec)[a-z]*\s+(\d{1,2}),?\s+(\d{4})(?:\s+(\d{1,2}):(\d{2})(?::(\d{2}))?)?$/i\<close>\<close>

definition re_mmmddyyyy :: rx where
  "re_mmmddyyyy = seqs [Grp 1 re_monthName, Rep isLetter 0 None, Rep isWhiteSpace 1 None,
     Grp 2 (Rep isDigit 1 (Some 2)), Opt (Lit '',''), Rep isWhiteSpace 1 None,
     Grp 3 (Rep isDigit 4 (Some 4)), re_time]"

text \<open>
  The strategies of \<open>parseDate\<close>, one per block of the source, each giving the ISO
  string it returns or \<open>None\<close> when the block falls through to the next.
\<close>

text \<open>Lines 66-73: \<open>new Date(trimmed)\<close>.\<close>

definition tryGeneric :: "Host \<Rightarrow> string \<Rightarrow> string option" where
  "tryGeneric host trimmed = map_option toISOString (dateParse host trimmed)"

text \<open>Lines 81-112: DD/MM/YYYY, then MM/DD/YYYY when that gave nothing and day > 12.\<close>

definition tryDDMMYYYY :: "Host \<Rightarrow> string \<Rightarrow> string option" where
  "tryDDMMYYYY host trimmed =
    (case match_all True re_ddmmyyyy trimmed of
       None \<Rightarrow> None
     | Some m \<Rightarrow>
        (let day = grpInt m 1; month = grpInt m 2; year = grpInt m 3;
             hour0 = grpInt m 4; minute = grpInt m 5; second = grpInt m 6;
             ampm = grp m 7;
             hour1 = (if truthy ampm \<and> toUpperCase (the ampm) = ''PM'' \<and> hour0 < 12
                      then hour0 + 12 else hour0);
             hour = (if truthy ampm \<and> toUpperCase (the ampm) = ''AM'' \<and> hour1 = 12
                     then 0 else hour1);
             first = (if day \<le> 31 \<and> month \<le> 12
                      then Date_local host year (month - 1) day hour minute second else None)
         in case first of
              Some t \<Rightarrow> Some (toISOString t)
            | None \<Rightarrow>
               (case (if day > 12 \<and> month \<le> 31
                      then Date_local host year (day - 1) month hour minute second else None) of
                  Some t \<Rightarrow> Some (toISOString t)
                | None \<Rightarrow> None)))"

text \<open>Lines 115-128: YYYY-MM-DD.\<close>

definition tryYYYYMMDD :: "Host \<Rightarrow> string \<Rightarrow> string option" where
  "tryYYYYMMDD host trimmed =
    (case match_all False re_yyyymmdd trimmed of
       None \<Rightarrow> None
     | Some m \<Rightarrow>
        (let year = grpInt m 1; month = grpInt m 2; day = grpInt m 3;
             hour = grpInt m 4; minute = grpInt m 5; second = grpInt m 6
         in map_option toISOString (Date_local host year (month - 1) day hour minute second)))"

text \<open>Lines 131-147: DD Mon YYYY.\<close>

definition tryDDMonYYYY :: "Host \<Rightarrow> string \<Rightarrow> string option" where
  "tryDDMonYYYY host trimmed =
    (case match_all True re_ddmmmyyyy trimmed of
       None \<Rightarrow> None
     | Some m \<Rightarrow>
        (let day = grpInt m 1;
             monthStr = take 3 (toLowerCase (case grp m 2 of None \<Rightarrow> [] | Some g \<Rightarrow> g));
             year = grpInt m 3;
             hour = grpInt m 4; minute = grpInt m 5; second = grpInt m 6
         in case map_of monthMap monthStr of
              None \<Rightarrow> None
            | Some month \<Rightarrow>
               map_option toISOString (Date_local host year month day hour minute second)))"

text \<open>Lines 150-166: Mon DD, YYYY.\<close>

definition tryMonDDYYYY :: "Host \<Rightarrow> string \<Rightarrow> string option" where
  "tryMonDDYYYY host trimmed =
    (case match_all True re_mmmddyyyy trimmed of
       None \<Rightarrow> None
     | Some m \<Rightarrow>
        (let monthStr = take 3 (toLowerCase (case grp m 1 of None \<Rightarrow> [] | Some g \<Rightarrow> g));
             day = grpInt m 2;
             year = grpInt m 3;
             hour = grpInt m 4; minute = grpInt m 5; second = grpInt m 6
         in case map_of monthMap monthStr of
              None \<Rightarrow> None
            | Some month \<Rightarrow>
               map_option toISOString (Date_local host year month day hour minute second)))"

text \<open>Lines 169-177: a spreadsheet serial number, in days from 30 December 1899 (local
  midnight).\<close>

definition trySerial :: "Host \<Rightarrow> string \<Rightarrow> string option" where
  "trySerial host trimmed =
    (case parseFloat trimmed of
       PF_Finite excelSerial \<Rightarrow>
         (if excelSerial > 0 \<and> excelSerial < 100000 then
            (case Date_local host 1899 11 30 0 0 0 of
               None \<Rightarrow> None
             | Some excelEpoch \<Rightarrow>
                map_option toISOString
                  (Date_of_number (of_int excelEpoch + excelSerial * 86400000)))
          else None)
     | _ \<Rightarrow> None)"

definition parseDate :: "Host \<Rightarrow> string \<Rightarrow> string option" where
  "parseDate host dateStr =
    (if dateStr = [] \<or> trim dateStr = [] then None
     else
       (let trimmed = trim dateStr in
        case tryGeneric host trimmed of Some res \<Rightarrow> Some res | None \<Rightarrow>
        (case tryDDMMYYYY host trimmed of Some res \<Rightarrow> Some res | None \<Rightarrow>
        (case tryYYYYMMDD host trimmed of Some res \<Rightarrow> Some res | None \<Rightarrow>
        (case tryDDMonYYYY host trimmed of Some res \<Rightarrow> Some res | None \<Rightarrow>
        (case tryMonDDYYYY host trimmed of Some res \<Rightarrow> Some res | None \<Rightarrow>
         trySerial host trimmed))))))"

section \<open>Priority Normalizer, Column Mapper and Row Parser (src/utils/excelParser.ts)\<close>

text \<open>The first match of \<open>/P[1-4]/\<close> in a string.\<close>

fun matchPriorityToken :: "string \<Rightarrow> string option" where
  "matchPriorityToken (a # b # rest) =
     (if a = CHR ''P'' \<and> b \<in> set ''1234'' then Some [a, b] else matchPriorityToken (b # rest))"
| "matchPriorityToken _ = None"

definition priorityMap :: "(string \<times> string) list" where
  "priorityMap = [(''CRITICAL'', ''P1''), (''HIGH'', ''P2''), (''MEDIUM'', ''P3''),
                  (''LOW'', ''P4''), (''URGENT'', ''P1''), (''NORMAL'', ''P3'')]"

definition validatePriority :: "string \<Rightarrow> string option" where
  "validatePriority priority' =
    (if priority' = [] then None
     else
       (let normalized = trim (toUpperCase priority') in
        if normalized \<in> set [''P1'', ''P2'', ''P3'', ''P4''] then Some normalized
        else case matchPriorityToken normalized of
               Some tok \<Rightarrow> Some tok
             | None \<Rightarrow>
                (case filter (\<lambda>(key, value). str_includes normalized key) priorityMap of
                   [] \<Rightarrow> None
                 | (key, value) # _ \<Rightarrow> Some value)))"

text \<open>The fields of \<open>TicketData\<close> that a column can map to.\<close>

datatype Field =
    k_ticket_id | k_request_time | k_week_label | k_initiator | k_affiliate | k_cluster
  | k_service_record_type | k_category | k_sub_category | k_third_lvl_category | k_title
  | k_description | k_name | k_support_group | k_process | k_process_manager | k_priority
  | k_status | k_resolution | k_root_cause | k_incident_origin | k_close_time | k_sla_indicator

definition COLUMN_MAPPING :: "(string \<times> Field) list" where
  "COLUMN_MAPPING =
    [(''ticket id'', k_ticket_id), (''ticketid'', k_ticket_id),
     (''request time'', k_request_time), (''requesttime'', k_request_time),
     (''week'', k_week_label), (''weeks'', k_week_label),
     (''initiator'', k_initiator), (''affiliate'', k_affiliate),
     (''cluster'', k_cluster), (''clusters'', k_cluster),
     (''service record type'', k_service_record_type),
     (''servicerecordtype'', k_service_record_type), (''record type'', k_service_record_type),
     (''category'', k_category),
     (''sub-category'', k_sub_category), (''subcategory'', k_sub_category),
     (''sub category'', k_sub_category),
     (''third lvl category'', k_third_lvl_category),
     (''third level category'', k_third_lvl_category),
     (''thirdlvlcategory'', k_third_lvl_category), (''3rd lvl category'', k_third_lvl_category),
     (''title'', k_title), (''description'', k_description), (''name'', k_name),
     (''support group'', k_support_group), (''supportgroup'', k_support_group),
     (''process'', k_process),
     (''process manager'', k_process_manager), (''processmanager'', k_process_manager),
     (''manager'', k_process_manager),
     (''priority'', k_priority), (''status'', k_status), (''resolution'', k_resolution),
     (''root cause'', k_root_cause), (''rootcause'', k_root_cause),
     (''incident origin'', k_incident_origin), (''incidentorigin'', k_incident_origin),
     (''close time'', k_close_time), (''closetime'', k_close_time),
     (''sla indicator'', k_sla_indicator), (''slaindicator'', k_sla_indicator)]"

text \<open>
  \<open>COLUMN_MAPPING[normalized] || null\<close>. (The two lower-case property names that
  every object inherits, \<open>constructor\<close> and \<open>__proto__\<close>, are not columns of the
  table; as headers they make the source set a property that is no field of
  \<open>TicketData\<close>, and are unmapped here.)
\<close>

definition normalizeColumnName :: "string \<Rightarrow> Field option" where
  "normalizeColumnName header = map_of COLUMN_MAPPING (trim (toLowerCase header))"

text \<open>\<open>ticket[fieldName] = value\<close>\<close>

fun setField :: "Field \<Rightarrow> string option \<Rightarrow> TicketData \<Rightarrow> TicketData" where
  "setField k_ticket_id v t = t\<lparr>ticket_id := v\<rparr>"
| "setField k_request_time v t = t\<lparr>request_time := v\<rparr>"
| "setField k_week_label v t = t\<lparr>week_label := v\<rparr>"
| "setField k_initiator v t = t\<lparr>initiator := v\<rparr>"
| "setField k_affiliate v t = t\<lparr>affiliate := v\<rparr>"
| "setField k_cluster v t = t\<lparr>cluster := v\<rparr>"
| "setField k_service_record_type v t = t\<lparr>service_record_type := v\<rparr>"
| "setField k_category v t = t\<lparr>TicketData.category := v\<rparr>"
| "setField k_sub_category v t = t\<lparr>sub_category := v\<rparr>"
| "setField k_third_lvl_category v t = t\<lparr>third_lvl_category := v\<rparr>"
| "setField k_title v t = t\<lparr>TicketData.title := v\<rparr>"
| "setField k_description v t = t\<lparr>description := v\<rparr>"
| "setField k_name v t = t\<lparr>name := v\<rparr>"
| "setField k_support_group v t = t\<lparr>support_group := v\<rparr>"
| "setField k_process v t = t\<lparr>process := v\<rparr>"
| "setField k_process_manager v t = t\<lparr>process_manager := v\<rparr>"
| "setField k_priority v t = t\<lparr>priority := v\<rparr>"
| "setField k_status v t = t\<lparr>status := v\<rparr>"
| "setField k_resolution v t = t\<lparr>resolution := v\<rparr>"
| "setField k_root_cause v t = t\<lparr>root_cause := v\<rparr>"
| "setField k_incident_origin v t = t\<lparr>incident_origin := v\<rparr>"
| "setField k_close_time v t = t\<lparr>close_time := v\<rparr>"
| "setField k_sla_indicator v t = t\<lparr>sla_indicator := v\<rparr>"

text \<open>
  What the CSV tokenizer (Papa Parse, an external library) hands back: the rows, each
  an object from header to cell; the errors it found, each with a code, a message and
  perhaps a row; and the header fields. The tokenizer is a parameter of the parser:
  a function from the text to its result, or to the message of the exception it throws.
\<close>

record PapaError =
  err_code :: string
  err_message :: string
  err_row :: "nat option"

record PapaResult =
  papa_data :: "(string \<times> string) list list"
  papa_errors :: "PapaError list"
  papa_fields :: "string list option"

text \<open>Lines 230-240: the tokenizer's errors; field-count mismatches become warnings.\<close>

definition tokenizerErrors :: "PapaError list \<Rightarrow> string list \<times> string list" where
  "tokenizerErrors errs =
    foldl (\<lambda>(errors, warnings) err.
       (let rowNum = (case err_row err of Some r \<Rightarrow> show_nat (r + 2) | None \<Rightarrow> ''Unknown'') in
        if err_code err = ''TooFewFields'' \<or> err_code err = ''TooManyFields''
        then (errors, warnings @ [''Row '' @ rowNum @ '': '' @ err_message err
                                   @ '' - Row will be skipped if invalid''])
        else (errors @ [''Row '' @ rowNum @ '': '' @ err_message err], warnings)))
      ([], []) errs"

text \<open>\<open>m.set(k, v)\<close> on a \<open>Map\<close> kept as an association list in insertion order.\<close>

fun map_set :: "('k \<times> 'v) list \<Rightarrow> 'k \<Rightarrow> 'v \<Rightarrow> ('k \<times> 'v) list" where
  "map_set [] k v = [(k, v)]"
| "map_set ((k', v') # m) k v = (if k' = k then (k', v) # m else (k', v') # map_set m k v)"

text \<open>Lines 243-251: \<open>mappedHeaders\<close>, a \<open>Map\<close> from header to field.\<close>

definition mapHeaders :: "string list \<Rightarrow> (string \<times> Field) list" where
  "mapHeaders headers =
    foldl (\<lambda>mappedHeaders header.
       (case normalizeColumnName header of
          None \<Rightarrow> mappedHeaders
        | Some mapped \<Rightarrow> map_set mappedHeaders header mapped))
      [] headers"

text \<open>Lines 271-301: one column of one row.\<close>

definition applyColumn ::
  "Host \<Rightarrow> (string \<times> Field) list \<Rightarrow> (string \<times> string) list \<Rightarrow> nat
     \<Rightarrow> TicketData \<times> string list \<Rightarrow> string \<Rightarrow> TicketData \<times> string list" where
  "applyColumn host mappedHeaders row index acc header =
    (let ticket = fst acc; warnings = snd acc in
     case map_of mappedHeaders header of
       None \<Rightarrow> acc
     | Some fieldName \<Rightarrow>
        (case map_of row header of
           None \<Rightarrow> acc
         | Some cell \<Rightarrow>
            (let v = trim cell in
             if v = [] then acc
             else if fieldName = k_request_time \<or> fieldName = k_close_time then
               (case parseDate host v of
                  Some parsedDate \<Rightarrow> (setField fieldName (Some parsedDate) ticket, warnings)
                | None \<Rightarrow>
                   if fieldName = k_request_time
                   then (ticket, warnings @ [''Row '' @ show_nat (index + 2)
                                             @ '': Invalid date format in '' @ header])
                   else acc)
             else if fieldName = k_priority then
               (let p = validatePriority v in
                (setField fieldName p ticket,
                 if \<not> truthy p \<and> v \<noteq> []
                 then warnings @ [''Row '' @ show_nat (index + 2) @ '': Invalid priority value ''
                                  @ [CHR 0x22] @ v @ [CHR 0x22] @ ''. Expected P1-P4.'']
                 else warnings))
             else (setField fieldName (Some v) ticket, warnings))))"

text \<open>
  Lines 266-319: one row. The result is the ticket pushed (if any) and the warnings so
  far. (The \<open>catch\<close> around the row is unreachable: nothing in the row's body throws.)
\<close>

definition processRow ::
  "Host \<Rightarrow> string list \<Rightarrow> (string \<times> Field) list \<Rightarrow> TicketData list \<times> string list
     \<Rightarrow> (string \<times> string) list \<times> nat \<Rightarrow> TicketData list \<times> string list" where
  "processRow host headers mappedHeaders acc rowWithIndex =
    (let parsedTickets = fst acc; warnings0 = snd acc;
         row = fst rowWithIndex; index = snd rowWithIndex;
         filled = foldl (applyColumn host mappedHeaders row index) (emptyTicket, warnings0) headers;
         ticket1 = fst filled; warnings1 = snd filled;
         surrogateId = ''AUTO-'' @ show_int (now host) @ ''-'' @ show_nat (index + 2);
         ticket2 = (if \<not> truthy (ticket_id ticket1)
                    then ticket1\<lparr>ticket_id := Some surrogateId\<rparr> else ticket1);
         warnings2 = (if \<not> truthy (ticket_id ticket1)
                      then warnings1 @ [''Row '' @ show_nat (index + 2)
                                        @ '': Missing Ticket ID, generated '' @ surrogateId]
                      else warnings1)
     in if \<not> truthy (request_time ticket2)
        then (parsedTickets, warnings2 @ [''Row '' @ show_nat (index + 2)
                                          @ '': Missing Request Time, skipping row''])
        else (parsedTickets @ [ticket2], warnings2))"

record ParsedData =
  data :: "TicketData list"
  errors :: "string list"
  warnings :: "string list"

definition parseExcelData :: "Host \<Rightarrow> (string \<Rightarrow> string + PapaResult) \<Rightarrow> string \<Rightarrow> ParsedData" where
  "parseExcelData host Papa_parse csvText =
    (case Papa_parse csvText of
       Inl thrown \<Rightarrow> \<lparr> data = [], errors = [''Parse error: '' @ thrown], warnings = [] \<rparr>
     | Inr result \<Rightarrow>
        (let errors0 = fst (tokenizerErrors (papa_errors result));
             warnings0 = snd (tokenizerErrors (papa_errors result));
             headers = (case papa_fields result of None \<Rightarrow> [] | Some fs \<Rightarrow> fs);
             mappedHeaders = mapHeaders headers;
             errors1 = (if ''ticket_id'' \<notin> fst ` set mappedHeaders
                           \<and> k_ticket_id \<notin> snd ` set mappedHeaders
                        then errors0 @ [''Missing required column: Ticket ID''] else errors0);
             errors2 = (if ''request_time'' \<notin> fst ` set mappedHeaders
                           \<and> k_request_time \<notin> snd ` set mappedHeaders
                        then errors1 @ [''Missing required column: Request Time''] else errors1)
         in if length errors2 > 0 then \<lparr> data = [], errors = errors2, warnings = warnings0 \<rparr>
            else
              (let rows = foldl (processRow host headers mappedHeaders) ([], warnings0)
                            (zip (papa_data result) [0 ..< length (papa_data result)]);
                   parsedTickets = fst rows
               in \<lparr> data = parsedTickets,
                    errors = (if length parsedTickets = 0
                              then errors2 @ [''No valid ticket data found in the input'']
                              else errors2),
                    warnings = snd rows \<rparr>)))"

section \<open>Week Assigner (\<open>calculateWeekNumbers\<close> in src/utils/excelParser.ts)\<close>

text \<open>\<open>!t.week_label || t.week_label.trim() === ''\<close>\<close>

definition needsWeek :: "TicketData \<Rightarrow> bool" where
  "needsWeek t = (\<not> truthy (week_label t) \<or> trim (the (week_label t)) = [])"

text \<open>\<open>Math.min(...dates)\<close> of a non-empty list: \<open>NaN\<close> when any date is.\<close>

definition minOfDates :: "int option list \<Rightarrow> int option" where
  "minOfDates dates = (if None \<in> set dates then None else Some (Min (set (map the dates))))"

text \<open>The number as a template literal prints it.\<close>

definition show_number :: "jsnumber \<Rightarrow> string" where
  "show_number n = (case n of JsNaN \<Rightarrow> ''NaN'' | JsInt i \<Rightarrow> show_int i)"

text \<open>Lines 355-370: the week of one ticket, counted from \<open>minDate\<close>.\<close>

definition assignWeek :: "Host \<Rightarrow> int option \<Rightarrow> TicketData \<Rightarrow> TicketData" where
  "assignWeek host minDate ticket =
    (if \<not> needsWeek ticket then ticket
     else if \<not> truthy (request_time ticket) then ticket
     else
       (let ticketDate = dateParse host (the (request_time ticket));
            weekNumber =
              (case (ticketDate, minDate) of
                 (Some td, Some md) \<Rightarrow>
                    (let diffTime = td - md;
                         diffDays = diffTime div (1000 * 60 * 60 * 24)
                     in JsInt (diffDays div 7 + 1))
               | _ \<Rightarrow> JsNaN)
        in ticket\<lparr> week_number := Some weekNumber,
                   week_label := Some (''Week '' @ show_number weekNumber) \<rparr>))"

definition calculateWeekNumbers :: "Host \<Rightarrow> TicketData list \<Rightarrow> TicketData list" where
  "calculateWeekNumbers host tickets =
    (if length tickets = 0 then tickets
     else
       (let ticketsNeedingWeeks = filter needsWeek tickets in
        if length ticketsNeedingWeeks = 0 then tickets
        else
          (let dates = map (\<lambda>d. dateParse host (the d))
                         (filter truthy (map request_time tickets))
           in if length dates = 0 then tickets
              else
                (let minDate = map_option (startOfLocalDay host) (minOfDates dates)
                 in map (assignWeek host minDate) tickets))))"

section \<open>Notions of the specification\<close>

text \<open>The mean absolute value of a list of deltas, as the specification words the
  momentum rule.\<close>

definition spec_mean_abs :: "int list \<Rightarrow> rat" where
  "spec_mean_abs ds = (\<Sum>d\<leftarrow>ds. of_int \<bar>d\<bar>) / of_nat (length ds)"

definition spec_last3 :: "int list \<Rightarrow> int list" where
  "spec_last3 ds = rev (take 3 (rev ds))"

definition spec_earlier :: "int list \<Rightarrow> int list" where
  "spec_earlier ds = rev (drop 3 (rev ds))"

text \<open>
  The latest-versus-previous-period change of a series, its magnitude in percent, and
  the wording tiers: which severity and title a change of a given sign and magnitude
  gets, with the weekly thresholds (20 and 50) and with the monthly ones (15 and 40).
\<close>

definition latest_change :: "TrendData list \<Rightarrow> int" where
  "latest_change d = int (count (last d)) - int (count (d ! (length d - 2)))"

definition latest_magnitude :: "TrendData list \<Rightarrow> rat" where
  "latest_magnitude d = \<bar>percentChange_of (latest_change d) (count (d ! (length d - 2)))\<bar>"

definition weekly_tier :: "int \<Rightarrow> rat \<Rightarrow> Severity \<times> string" where
  "weekly_tier change magnitude =
    (if change > 0 then
       (if magnitude > 50 then (critical, ''Significant Spike Detected'')
        else if magnitude > 20 then (warning, ''Notable Increase in Volume'')
        else (warning, ''Slight Uptick Observed''))
     else if change < 0 then
       (if magnitude > 50 then (positive, ''Dramatic Improvement'')
        else if magnitude > 20 then (positive, ''Significant Reduction'')
        else (positive, ''Modest Improvement''))
     else (neutral, ''Stable Volume''))"

definition monthly_tier :: "int \<Rightarrow> rat \<Rightarrow> Severity \<times> string" where
  "monthly_tier change magnitude =
    (if change > 0 then
       (if magnitude > 40 then (critical, ''Major Monthly Increase'')
        else if magnitude > 15 then (warning, ''Monthly Volume Rising'')
        else (neutral, ''Slight Monthly Increase''))
     else
       (if magnitude > 40 then (positive, ''Outstanding Monthly Performance'')
        else if magnitude > 15 then (positive, ''Strong Monthly Improvement'')
        else (positive, ''Modest Monthly Improvement'')))"

text \<open>
  What the specification asks of a breakdown of \<open>n\<close> tickets: each entry's
  percentage is its count over \<open>n\<close> times 100; and the sum of the percentages of
  all returned entries.
\<close>

definition percentages_of_counts :: "nat \<Rightarrow> CategoryBreakdown list \<Rightarrow> bool" where
  "percentages_of_counts n bs =
     (\<forall>b\<in>set bs. CategoryBreakdown.percentage b
                     = of_nat (CategoryBreakdown.count b) / of_nat n * 100)"

definition percentage_sum :: "CategoryBreakdown list \<Rightarrow> rat" where
  "percentage_sum bs = sum_list (map CategoryBreakdown.percentage bs)"

section \<open>Properties of the string helpers\<close>

lemma dropWhile_trimmed:
  "dropWhile P (rev (dropWhile P (rev (dropWhile P s)))) = rev (dropWhile P (rev (dropWhile P s)))"
  by (metis (no_types, lifting) Nil_is_rev_conv dropWhile_eq_Nil_conv
      dropWhile_eq_self_iff dropWhile_idem dropWhile_last hd_rev last_rev)

lemma trim_trim: "trim (trim s) = trim s"
  unfolding trim_def trimEnd_def
  by (simp add: dropWhile_trimmed)

section \<open>The Category Normalizer is idempotent\<close>

text \<open>Every canonical label is a fixed point of its own service's rules.\<close>

lemma smart_teller_labels:
  "normalizeCategory ''smart_teller'' (Some ''Interface freezing, slow and or unresponsive'')
     = ''Interface freezing, slow and or unresponsive''"
  "normalizeCategory ''smart_teller'' (Some ''Core Banking Error'') = ''Core Banking Error''"
  "normalizeCategory ''smart_teller'' (Some ''Assign application to user on Smart Teller'')
     = ''Assign application to user on Smart Teller''"
  "normalizeCategory ''smart_teller'' (Some ''Transaction Failure'') = ''Transaction Failure''"
  by code_simp+

lemma cards_labels:
  "normalizeCategory ''cards'' (Some ''Card Issuance Connectivity issues'')
     = ''Card Issuance Connectivity issues''"
  "normalizeCategory ''cards'' (Some ''Card Complain with error code'')
     = ''Card Complain with error code''"
  "normalizeCategory ''cards'' (Some ''Card error'') = ''Card error''"
  "normalizeCategory ''cards'' (Some ''Challenges on indigo'') = ''Challenges on indigo''"
  by code_simp+

lemma flexcube_labels:
  "normalizeCategory ''flexcube'' (Some ''Account Maintenance'') = ''Account Maintenance''"
  "normalizeCategory ''flexcube'' (Some ''Cheque Book'') = ''Cheque Book''"
  "normalizeCategory ''flexcube'' (Some ''Account Closure'') = ''Account Closure''"
  "normalizeCategory ''flexcube'' (Some ''Account Class Transfer'') = ''Account Class Transfer''"
  by code_simp+

lemma ibps_labels:
  "normalizeCategory ''ibps'' (Some ''Account Opening Challenges'') = ''Account Opening Challenges''"
  "normalizeCategory ''ibps'' (Some ''AO update Challenges'') = ''AO update Challenges''"
  "normalizeCategory ''ibps'' (Some ''Account Maintenance'') = ''Account Maintenance''"
  "normalizeCategory ''ibps'' (Some ''FT validation issue'') = ''FT validation issue''"
  by code_simp+

lemma mfs_labels:
  "normalizeCategory ''mfs'' (Some ''Issue creating virtual cards'') = ''Issue creating virtual cards''"
  "normalizeCategory ''mfs'' (Some ''Onboarding - Non recipient OTP'') = ''Onboarding - Non recipient OTP''"
  "normalizeCategory ''mfs'' (Some ''Onboarding related'') = ''Onboarding related''"
  "normalizeCategory ''mfs'' (Some ''Account Activation'') = ''Account Activation''"
  by code_simp+

lemma normalizeCategory_empty: "normalizeCategory s (Some []) = []"
  by (simp add: normalizeCategory_def trim_def trimEnd_def)

text \<open>When no rule fires the trimmed input comes back, and a second pass trims it to
  itself, lower-cases it to the same \<open>v\<close> and finds the same rules silent.\<close>

lemma normalizeCategory_smart_teller:
  "normalizeCategory ''smart_teller'' (Some (normalizeCategory ''smart_teller'' x))
     = normalizeCategory ''smart_teller'' x"
proof -
  define input where "input = trim (case x of None \<Rightarrow> [] | Some r \<Rightarrow> r)"
  have t: "trim input = input" by (simp add: input_def trim_trim)
  show ?thesis
    using smart_teller_labels normalizeCategory_empty [of "''smart_teller''"] t
    by (simp add: normalizeCategory_def [of _ x] normalizeCategory_def [of _ "Some input"]
        Let_def input_def [symmetric])
qed

lemma normalizeCategory_cards:
  "normalizeCategory ''cards'' (Some (normalizeCategory ''cards'' x))
     = normalizeCategory ''cards'' x"
proof -
  define input where "input = trim (case x of None \<Rightarrow> [] | Some r \<Rightarrow> r)"
  have t: "trim input = input" by (simp add: input_def trim_trim)
  show ?thesis
    using cards_labels normalizeCategory_empty [of "''cards''"] t
    by (simp add: normalizeCategory_def [of _ x] normalizeCategory_def [of _ "Some input"]
        Let_def input_def [symmetric])
qed

lemma normalizeCategory_flexcube:
  "normalizeCategory ''flexcube'' (Some (normalizeCategory ''flexcube'' x))
     = normalizeCategory ''flexcube'' x"
proof -
  define input where "input = trim (case x of None \<Rightarrow> [] | Some r \<Rightarrow> r)"
  have t: "trim input = input" by (simp add: input_def trim_trim)
  show ?thesis
    using flexcube_labels normalizeCategory_empty [of "''flexcube''"] t
    by (simp add: normalizeCategory_def [of _ x] normalizeCategory_def [of _ "Some input"]
        Let_def input_def [symmetric])
qed

lemma normalizeCategory_ibps:
  "normalizeCategory ''ibps'' (Some (normalizeCategory ''ibps'' x))
     = normalizeCategory ''ibps'' x"
proof -
  define input where "input = trim (case x of None \<Rightarrow> [] | Some r \<Rightarrow> r)"
  have t: "trim input = input" by (simp add: input_def trim_trim)
  show ?thesis
    using ibps_labels normalizeCategory_empty [of "''ibps''"] t
    by (simp add: normalizeCategory_def [of _ x] normalizeCategory_def [of _ "Some input"]
        Let_def input_def [symmetric])
qed

lemma normalizeCategory_mfs:
  "normalizeCategory ''mfs'' (Some (normalizeCategory ''mfs'' x))
     = normalizeCategory ''mfs'' x"
proof -
  define input where "input = trim (case x of None \<Rightarrow> [] | Some r \<Rightarrow> r)"
  have t: "trim input = input" by (simp add: input_def trim_trim)
  show ?thesis
    using mfs_labels normalizeCategory_empty [of "''mfs''"] t
    by (simp add: normalizeCategory_def [of _ x] normalizeCategory_def [of _ "Some input"]
        Let_def input_def [symmetric])
qed

lemma normalizeCategory_other:
  assumes "s \<noteq> ''smart_teller''" "s \<noteq> ''cards''" "s \<noteq> ''flexcube''"
    "s \<noteq> ''ibps''" "s \<noteq> ''mfs''"
  shows "normalizeCategory s x = trim (case x of None \<Rightarrow> [] | Some r \<Rightarrow> r)"
  using assms by (simp add: normalizeCategory_def Let_def)

text \<open>
  C9. \<open>normalizeCategory\<close> is idempotent for every service key and every raw
  category: normalizing an already normalized category gives the same string, whether
  the first pass produced a canonical label or passed the trimmed input through.
\<close>

theorem normalizeCategory_idempotent:
  "normalizeCategory s (Some (normalizeCategory s x)) = normalizeCategory s x"
proof -
  consider "s = ''smart_teller''" | "s = ''cards''" | "s = ''flexcube''" | "s = ''ibps''"
    | "s = ''mfs''"
    | "s \<noteq> ''smart_teller''" "s \<noteq> ''cards''" "s \<noteq> ''flexcube''"
      "s \<noteq> ''ibps''" "s \<noteq> ''mfs''"
    by blast
  then show ?thesis
  proof cases
    case 1 then show ?thesis by (simp add: normalizeCategory_smart_teller)
  next
    case 2 then show ?thesis by (simp add: normalizeCategory_cards)
  next
    case 3 then show ?thesis by (simp add: normalizeCategory_flexcube)
  next
    case 4 then show ?thesis by (simp add: normalizeCategory_ibps)
  next
    case 5 then show ?thesis by (simp add: normalizeCategory_mfs)
  next
    case 6 then show ?thesis by (simp add: normalizeCategory_other trim_trim)
  qed
qed

section \<open>Momentum classification\<close>

text \<open>The mean absolute value of a list of deltas, as the specification words it.\<close>

lemma momentum_of_short: "length changes < 3 \<Longrightarrow> momentum_of changes = steady"
  by (simp add: momentum_of_def)

lemma average_of_abs_nonneg: "0 \<le> average_of (map abs xs)"
proof -
  have "0 \<le> sum_list (map abs xs)" by (induction xs) auto
  then show ?thesis by (simp add: average_of_def)
qed

lemma momentum_of_three: "length changes = 3 \<Longrightarrow> momentum_of changes = steady"
proof -
  assume l: "length changes = 3"
  have n: "0 \<le> average_of (map abs (slice_last3 changes))" by (rule average_of_abs_nonneg)
  show ?thesis using l n
    by (simp add: momentum_of_def Let_def slice_but_last3_def)
qed

lemma momentum_of_long:
  assumes "length changes \<ge> 4"
  shows "momentum_of changes =
    (if average_of (map abs (slice_last3 changes))
          > average_of (map abs (slice_but_last3 changes)) * (13 / 10) then accelerating
     else if average_of (map abs (slice_last3 changes))
          < average_of (map abs (slice_but_last3 changes)) * (7 / 10) then decelerating
     else steady)"
proof -
  from assms have "length (map abs (slice_but_last3 changes)) > 0" "length changes \<ge> 3"
    by (simp_all add: slice_but_last3_def)
  then show ?thesis by (simp add: momentum_of_def Let_def)
qed

lemma analyzeTrendPattern_momentum:
  "momentum (analyzeTrendPattern trend) = momentum_of (changes_of trend)"
  by (simp add: analyzeTrendPattern_def Let_def changes_of_def momentum_of_def)

lemma spec_mean_abs_average: "spec_mean_abs ds = average_of (map abs ds)"
proof -
  have "(\<Sum>d\<leftarrow>ds. rat_of_int \<bar>d\<bar>) = of_int (sum_list (map abs ds))"
    by (induction ds) auto
  then show ?thesis by (simp add: spec_mean_abs_def average_of_def)
qed

lemma spec_last3_slice: "spec_last3 ds = slice_last3 ds"
  by (simp add: spec_last3_def slice_last3_def take_rev)

lemma spec_earlier_slice: "spec_earlier ds = slice_but_last3 ds"
  by (simp add: spec_earlier_def slice_but_last3_def drop_rev)



section \<open>The latest-versus-previous-period insight\<close>

lemma hd_generateWeeklyInsights:
  "2 \<le> length d \<Longrightarrow>
   hd (generateWeeklyInsights d)
     = weekOverWeek (analyzeTrendPattern d) (d ! (length d - 2)) (d ! (length d - 1))"
  by (simp add: generateWeeklyInsights_def Let_def)

lemma weekOverWeek_tier:
  "(severity (weekOverWeek p previous latest), title (weekOverWeek p previous latest))
     = weekly_tier (int (count latest) - int (count previous))
         \<bar>percentChange_of (int (count latest) - int (count previous)) (count previous)\<bar>"
  by (simp add: weekOverWeek_def weekly_tier_def Let_def icon_for_def)

lemma monthOverMonth_tier:
  "int (count latest) - int (count previous) \<noteq> 0 \<Longrightarrow>
   monthOverMonth previous latest \<noteq> [] \<and>
   (severity (hd (monthOverMonth previous latest)), title (hd (monthOverMonth previous latest)))
     = monthly_tier (int (count latest) - int (count previous))
         \<bar>percentChange_of (int (count latest) - int (count previous)) (count previous)\<bar>"
  by (simp add: monthOverMonth_def monthly_tier_def Let_def icon_for_def)

lemma hd_generateMonthlyInsights:
  assumes "2 \<le> length d" "monthOverMonth (d ! (length d - 2)) (d ! (length d - 1)) \<noteq> []"
  shows "hd (generateMonthlyInsights d)
     = hd (monthOverMonth (d ! (length d - 2)) (d ! (length d - 1)))"
proof -
  obtain x xs where m: "monthOverMonth (d ! (length d - 2)) (d ! (length d - 1)) = x # xs"
    using assms(2) by (cases "monthOverMonth (d ! (length d - 2)) (d ! (length d - 1))") auto
  then have m': "monthOverMonth (d ! (length d - 2)) (d ! (length d - Suc 0)) = x # xs"
    by simp
  show ?thesis using assms(1)
    by (simp add: generateMonthlyInsights_def Let_def m m')
qed




section \<open>Breakdown percentages\<close>

lemma sum_map_bump: "sum_list (map snd (map_bump m k)) = sum_list (map snd m) + 1"
  by (induction m k rule: map_bump.induct) auto

lemma keys_map_bump: "fst ` set (map_bump m k) = insert k (fst ` set m)"
  by (induction m k rule: map_bump.induct) auto

lemma distinct_map_bump: "distinct (map fst m) \<Longrightarrow> distinct (map fst (map_bump m k))"
  by (induction m k rule: map_bump.induct) (auto simp: keys_map_bump)

lemma positive_map_bump: "\<forall>e\<in>set m. 0 < snd e \<Longrightarrow> \<forall>e\<in>set (map_bump m k). 0 < snd e"
  by (induction m k rule: map_bump.induct) auto

text \<open>The counting loop over the tickets, from any starting map.\<close>

lemma sum_count_loop:
  "sum_list (map snd (foldl (\<lambda>m t. map_bump m (f t)) m0 tickets))
     = sum_list (map snd m0) + length tickets"
  by (induction tickets arbitrary: m0) (simp_all add: sum_map_bump)

lemma keys_count_loop:
  "fst ` set (foldl (\<lambda>m t. map_bump m (f t)) m0 tickets) = fst ` set m0 \<union> f ` set tickets"
  by (induction tickets arbitrary: m0) (simp_all add: keys_map_bump)

lemma distinct_count_loop:
  "distinct (map fst m0) \<Longrightarrow> distinct (map fst (foldl (\<lambda>m t. map_bump m (f t)) m0 tickets))"
  by (induction tickets arbitrary: m0) (simp_all add: distinct_map_bump)

lemma positive_count_loop:
  "\<forall>e\<in>set m0. 0 < snd e \<Longrightarrow> \<forall>e\<in>set (foldl (\<lambda>m t. map_bump m (f t)) m0 tickets). 0 < snd e"
proof (induction tickets arbitrary: m0)
  case Nil
  then show ?case by simp
next
  case (Cons t tickets)
  from positive_map_bump [OF Cons.prems] have "\<forall>e\<in>set (map_bump m0 (f t)). 0 < snd e" .
  from Cons.IH [OF this] show ?case by simp
qed

lemma length_count_loop:
  "length (foldl (\<lambda>m t. map_bump m (f t)) [] tickets) = card (f ` set tickets)"
proof -
  let ?m = "foldl (\<lambda>m t. map_bump m (f t)) [] tickets"
  have d: "distinct (map fst ?m)" by (rule distinct_count_loop) simp
  have "length ?m = length (map fst ?m)" by simp
  also have "\<dots> = card (set (map fst ?m))" using d by (simp only: distinct_card)
  also have "\<dots> = card (f ` set tickets)" by (simp add: keys_count_loop)
  finally show ?thesis .
qed

text \<open>Sorting moves entries around and changes no sum.\<close>

lemma sum_insort_key:
  "sum_list (map g (insort_key k x xs)) = g x + sum_list (map g xs)"
  for g :: "'a \<Rightarrow> rat"
  by (induction xs) auto

lemma sum_sort_key: "sum_list (map g (sort_key k xs)) = sum_list (map g xs)"
  for g :: "'a \<Rightarrow> rat"
  by (induction xs) (auto simp: sum_insort_key)

text \<open>The percentages of the entries of a map, and of the first \<open>n\<close> of them.\<close>

lemma sum_percentage_entries:
  "sum_list (map CategoryBreakdown.percentage (map (entry t) m))
     = (if t > 0 then of_nat (sum_list (map snd m)) / of_nat t * 100 else 0)"
  by (induction m) (simp_all add: entry_def add_divide_distrib distrib_right)

lemma percentage_positive:
  "0 < t \<Longrightarrow> \<forall>e\<in>set m. 0 < snd e \<Longrightarrow>
   \<forall>b\<in>set (map (entry t) m). 0 < CategoryBreakdown.percentage b"
  by (auto simp: entry_def)

lemma sum_take_less:
  fixes xs :: "rat list"
  assumes "\<forall>x\<in>set xs. 0 < x" "n < length xs"
  shows "sum_list (take n xs) < sum_list xs"
proof -
  have "drop n xs \<noteq> []" using assms(2) by simp
  then obtain y ys where d: "drop n xs = y # ys" by (cases "drop n xs") auto
  have "\<forall>x\<in>set (drop n xs). 0 < x" using assms(1) by (meson in_set_dropD)
  then have "0 < y" "\<forall>x\<in>set ys. 0 < x" by (simp_all add: d)
  then have "0 < sum_list (drop n xs)"
    by (simp add: d add_pos_nonneg sum_list_nonneg less_imp_le)
  moreover have "sum_list xs = sum_list (take n xs) + sum_list (drop n xs)"
    by (metis append_take_drop_id sum_list_append)
  ultimately show ?thesis by simp
qed

text \<open>
  Every breakdown has one shape: count the tickets by a label, turn the map's entries
  into records, sort them, and (for some dimensions) keep the first \<open>n\<close>.
\<close>

lemma breakdown_percentages_of_counts:
  "percentages_of_counts (length tickets)
     (sort_key k (map (entry (length tickets)) (foldl (\<lambda>m t. map_bump m (f t)) [] tickets)))"
proof (cases "tickets = []")
  case True
  then show ?thesis by (simp add: percentages_of_counts_def)
next
  case False
  then show ?thesis by (auto simp: percentages_of_counts_def entry_def)
qed

lemma percentages_of_counts_take:
  "percentages_of_counts n bs \<Longrightarrow> percentages_of_counts n (take j bs)"
  by (auto simp: percentages_of_counts_def dest: in_set_takeD)

lemma breakdown_sum:
  assumes "tickets \<noteq> []"
  shows "percentage_sum
     (sort_key k (map (entry (length tickets)) (foldl (\<lambda>m t. map_bump m (f t)) [] tickets))) = 100"
proof -
  let ?m = "foldl (\<lambda>m t. map_bump m (f t)) [] tickets"
  have n: "0 < length tickets" using assms by simp
  have c: "sum_list (map snd ?m) = length tickets" by (simp add: sum_count_loop)
  have "percentage_sum (sort_key k (map (entry (length tickets)) ?m))
          = sum_list (map CategoryBreakdown.percentage (map (entry (length tickets)) ?m))"
    by (simp only: percentage_sum_def sum_sort_key)
  also have "\<dots> = of_nat (sum_list (map snd ?m)) / of_nat (length tickets) * 100"
    using n by (simp only: sum_percentage_entries if_P)
  also have "\<dots> = 100" using n by (simp add: c)
  finally show ?thesis .
qed

lemma breakdown_length:
  "length (sort_key k (map (entry (length tickets)) (foldl (\<lambda>m t. map_bump m (f t)) [] tickets)))
     = card (f ` set tickets)"
  by (simp add: length_count_loop)

lemma breakdown_positive:
  assumes "tickets \<noteq> []"
  shows "\<forall>x\<in>set (map CategoryBreakdown.percentage
     (sort_key k (map (entry (length tickets)) (foldl (\<lambda>m t. map_bump m (f t)) [] tickets)))). 0 < x"
proof -
  have p: "\<forall>e\<in>set (foldl (\<lambda>m t. map_bump m (f t)) [] tickets). 0 < snd e"
    by (rule positive_count_loop) simp
  have "0 < length tickets" using assms by simp
  from percentage_positive [OF this p] show ?thesis by simp
qed

lemma breakdown_take_sum:
  assumes "tickets \<noteq> []"
  shows "(percentage_sum (take n
      (sort_key k (map (entry (length tickets)) (foldl (\<lambda>m t. map_bump m (f t)) [] tickets)))) = 100
          \<longleftrightarrow> card (f ` set tickets) \<le> n)
    \<and> percentage_sum (take n
      (sort_key k (map (entry (length tickets)) (foldl (\<lambda>m t. map_bump m (f t)) [] tickets)))) \<le> 100"
proof -
  let ?bs = "sort_key k (map (entry (length tickets)) (foldl (\<lambda>m t. map_bump m (f t)) [] tickets))"
  have s: "percentage_sum ?bs = 100" by (rule breakdown_sum [OF assms])
  have l: "length ?bs = card (f ` set tickets)" by (rule breakdown_length)
  show ?thesis
  proof (cases "card (f ` set tickets) \<le> n")
    case True
    then have "take n ?bs = ?bs" using l by simp
    then show ?thesis using s True by simp
  next
    case False
    then have "n < length (map CategoryBreakdown.percentage ?bs)" using l by simp
    from sum_take_less [OF breakdown_positive [OF assms] this]
    have "percentage_sum (take n ?bs) < 100"
      using s by (simp add: percentage_sum_def take_map)
    then show ?thesis using False by simp
  qed
qed




end
